theory Spec2Isabelle
  imports Complex_Main
begin

section \<open>Data model (src/mod.ts, lines 5-69)\<close>

text \<open>
  The TypeScript interfaces become records. Field names carry a short prefix because the
  source reuses \<open>uuid\<close>, \<open>title\<close>, \<open>url\<close>, ... in several interfaces.

  A JavaScript \<open>number\<close> read from JSON is a finite double, or \<open>Infinity\<close> or
  \<open>-Infinity\<close> when the literal is beyond the range of doubles (\<open>1e400\<close>); JSON has no
  \<open>NaN\<close>. Every finite double is a rational, and \<open>Math.floor\<close> of a finite double is its
  exact floor. A number is therefore a rational or one of the two infinities (the sign of
  zero is not represented).

  A field marked \<open>?\<close> in the source is an \<open>option\<close>. The values that the code itself
  tests for absence (\<open>podcastData\<close>, \<open>podcastData.podcast\<close>,
  \<open>latestData?.podcast?.episodes\<close>) are options as well, \<open>None\<close> standing for a
  missing (falsy) value. Values outside the declared types, such as a \<open>podcast\<close> field
  holding a number, are not represented.
\<close>

datatype number = Finite rat | PosInfinity | NegInfinity

typedecl unknown

record Episode =
  ep_uuid :: string
  ep_title :: string
  ep_url :: string
  ep_file_type :: string
  ep_file_size :: number
  ep_duration :: number
  ep_published :: string
  ep_type :: string
  ep_image_url :: "string option"

record Podcast =
  pod_url :: string
  pod_title :: string
  pod_author :: string
  pod_description :: string
  pod_description_html :: string
  pod_category :: string
  pod_audio :: bool
  pod_show_type :: string
  pod_uuid :: string
  pod_fundings :: "unknown list"
  pod_guid :: string
  pod_is_private :: bool
  pod_transcript_eligible :: bool
  pod_episodes :: "Episode list"
  pod_image_url :: "string option"

record Root =
  root_episode_frequency :: string
  root_estimated_next_episode_at :: string
  root_has_seasons :: bool
  root_season_count :: number
  root_episode_count :: number
  root_has_more_episodes :: bool
  root_podcast :: "Podcast option"

record LatestEpisode =
  le_uuid :: string
  le_title :: string
  le_url :: string
  le_published :: string
  le_show_notes :: string
  le_hash :: string
  le_modified :: number
  le_image :: string
  le_transcripts :: "unknown list"

record LatestPodcastData =
  lpd_episodes :: "LatestEpisode list option"

record LatestPodcastsRoot =
  lpr_podcast :: "LatestPodcastData option"

section \<open>JavaScript built-ins used by the source\<close>

text \<open>Thrown values. \<open>NonError\<close> is a thrown value that is not an instance of \<open>Error\<close>,
  carried as its \<open>String(...)\<close> rendering.\<close>

datatype js_error =
    Error string
  | TypeError string
  | URIError string
  | SyntaxError string
  | NonError string

fun instanceof_Error :: "js_error \<Rightarrow> bool" where
  "instanceof_Error (NonError _) = False"
| "instanceof_Error _ = True"

fun message :: "js_error \<Rightarrow> string" where
  "message (Error m) = m"
| "message (TypeError m) = m"
| "message (URIError m) = m"
| "message (SyntaxError m) = m"
| "message (NonError m) = m"

text \<open>\<open>a || b\<close> on possibly undefined strings: \<open>undefined\<close> and \<open>''\<close> are falsy.\<close>

fun truthy :: "string option \<Rightarrow> bool" where
  "truthy None = False"
| "truthy (Some s) = (s \<noteq> [])"

text \<open>The value tested by \<open>if (x)\<close> on a possibly missing string: \<open>Some\<close> exactly when
  \<open>x\<close> is truthy.\<close>

fun if_truthy :: "string option \<Rightarrow> string option" where
  "if_truthy None = None"
| "if_truthy (Some s) = (if s \<noteq> [] then Some s else None)"

definition js_or :: "string option \<Rightarrow> string option \<Rightarrow> string option" where
  "js_or a b = (if truthy a then a else b)"

text \<open>\<open>a || b\<close> where \<open>b\<close> is a string: the result is a string.\<close>

definition js_or_str :: "string option \<Rightarrow> string \<Rightarrow> string" where
  "js_or_str a b = (case a of None \<Rightarrow> b | Some s \<Rightarrow> if s \<noteq> [] then s else b)"

text \<open>\<open>Math.floor\<close>: the floor of a finite number; an infinity is returned unchanged.\<close>

fun Math_floor :: "number \<Rightarrow> number" where
  "Math_floor (Finite x) = Finite (of_int \<lfloor>x\<rfloor>)"
| "Math_floor PosInfinity = PosInfinity"
| "Math_floor NegInfinity = NegInfinity"

text \<open>\<open>Array.prototype.slice(start, end)\<close>: a negative bound counts from the end of the
  array, both bounds are clamped to \<open>[0, length]\<close>, and an empty range gives \<open>[]\<close>.\<close>

definition slice :: "'a list \<Rightarrow> int \<Rightarrow> int \<Rightarrow> 'a list" where
  "slice xs start fin =
     (let len = int (length xs);
          k = (if start < 0 then max (len + start) 0 else min start len);
          final = (if fin < 0 then max (len + fin) 0 else min fin len)
      in take (nat (final - k)) (drop (nat k) xs))"

text \<open>\<open>Map\<close>: entries in insertion order, one per key. \<open>set\<close> on a key already in the map
  replaces its value in place, on a new key appends; \<open>new Map(entries)\<close> calls \<open>set\<close> for
  each entry in order.\<close>

type_synonym ('k, 'v) Map = "('k \<times> 'v) list"

fun Map_set :: "('k, 'v) Map \<Rightarrow> 'k \<Rightarrow> 'v \<Rightarrow> ('k, 'v) Map" where
  "Map_set [] k v = [(k, v)]"
| "Map_set ((k', v') # m) k v = (if k' = k then (k, v) # m else (k', v') # Map_set m k v)"

definition Map_new :: "('k \<times> 'v) list \<Rightarrow> ('k, 'v) Map" where
  "Map_new entries = foldl (\<lambda>m (k, v). Map_set m k v) [] entries"

definition Map_get :: "('k, 'v) Map \<Rightarrow> 'k \<Rightarrow> 'v option" where
  "Map_get m k = map_of m k"

definition Map_size :: "('k, 'v) Map \<Rightarrow> nat" where
  "Map_size m = length m"

section \<open>The \<open>rss\<close> package, as far as the source drives it\<close>

text \<open>
  The package is an external collaborator. The model keeps what the source hands to it:
  the options object of \<open>new RSS(...)\<close> and the options object of every \<open>feed.item(...)\<close>
  call, in call order. Serialisation (\<open>feed.xml\<close>) is a parameter of the environment.

  Object and array literals inside \<open>custom_elements\<close> are values of \<open>js_value\<close>.
\<close>

datatype js_value =
    S string
  | N number
  | Obj "(string \<times> js_value) list"
  | Arr "js_value list"

datatype Date = Date string

record Enclosure =
  enc_url :: string
  enc_size :: number
  enc_type :: string

record ItemOptions =
  item_title :: string
  item_description :: string
  item_url :: string
  item_guid :: string
  item_date :: Date
  item_enclosure :: Enclosure
  item_author :: string
  item_custom_elements :: "js_value list"

record FeedOptions =
  feed_title :: string
  feed_description :: string
  feed_feed_url :: string
  feed_site_url :: string
  feed_image_url :: string
  feed_author :: string
  feed_language :: string
  feed_pubDate :: string
  feed_ttl :: number
  feed_generator :: string
  feed_custom_namespaces :: "(string \<times> string) list"
  feed_custom_elements :: "js_value list"

record RSS =
  rss_options :: FeedOptions
  rss_items :: "ItemOptions list"

definition RSS_new :: "FeedOptions \<Rightarrow> RSS" where
  "RSS_new opts = \<lparr>rss_options = opts, rss_items = []\<rparr>"

definition RSS_item :: "RSS \<Rightarrow> ItemOptions \<Rightarrow> RSS" where
  "RSS_item feed opts = feed\<lparr>rss_items := rss_items feed @ [opts]\<rparr>"

section \<open>convertToRSS (src/mod.ts, lines 72-149)\<close>

type_synonym LatestEpisodesMap = "(string, LatestEpisode) Map"

text \<open>\<open>latestEpisodesMap?.get(episode.uuid)?.image || podcast.image_url || ''\<close>
  (lines 131 and 136).\<close>

definition episode_image ::
    "Podcast \<Rightarrow> LatestEpisodesMap option \<Rightarrow> Episode \<Rightarrow> string" where
  "episode_image podcast latestEpisodesMap episode =
     js_or_str
       (js_or
          (case latestEpisodesMap of
             None \<Rightarrow> None
           | Some m \<Rightarrow> (case Map_get m (ep_uuid episode) of
                         None \<Rightarrow> None
                       | Some l \<Rightarrow> Some (le_image l)))
          (pod_image_url podcast))
       []"

text \<open>The options object of \<open>new RSS(...)\<close> (lines 80-111). \<open>now\<close> is
  \<open>new Date().toUTCString()\<close>.\<close>

definition feed_options :: "string \<Rightarrow> Podcast \<Rightarrow> FeedOptions" where
  "feed_options now podcast =
     \<lparr> feed_title = pod_title podcast,
       feed_description = pod_description podcast,
       feed_feed_url = pod_url podcast,
       feed_site_url = pod_url podcast,
       feed_image_url = js_or_str (pod_image_url podcast) [],
       feed_author = pod_author podcast,
       feed_language = ''en-us'',
       feed_pubDate = now,
       feed_ttl = Finite 60,
       feed_generator = ''Deno Podcast Converter (via npm:rss)'',
       feed_custom_namespaces =
         [(''itunes'', ''http://www.itunes.com/dtds/podcast-1.0.dtd''),
          (''content'', ''http://purl.org/rss/1.0/modules/content/''),
          (''media'', ''http://search.yahoo.com/mrss/'')],
       feed_custom_elements =
         [Obj [(''itunes:author'', S (pod_author podcast))],
          Obj [(''itunes:summary'', S (pod_description podcast))],
          Obj [(''itunes:type'', S (pod_show_type podcast))],
          Obj [(''itunes:explicit'', S ''false'')],
          Obj [(''content:encoded'', S (pod_description_html podcast))],
          Obj [(''itunes:category'', Obj [(''_attr'', Obj [(''text'', S (pod_category podcast))])])],
          Obj [(''itunes:image'',
                Obj [(''_attr'', Obj [(''href'', S (js_or_str (pod_image_url podcast) []))])])],
          Obj [(''image'',
                Arr [Obj [(''url'', S (js_or_str (pod_image_url podcast) []))],
                     Obj [(''title'', S (pod_title podcast))],
                     Obj [(''link'', S (pod_url podcast))]])]] \<rparr>"

text \<open>The options object of \<open>feed.item(...)\<close> for one episode (lines 114-144).\<close>

definition item_options ::
    "Podcast \<Rightarrow> LatestEpisodesMap option \<Rightarrow> Episode \<Rightarrow> ItemOptions" where
  "item_options podcast latestEpisodesMap episode =
     (let pubDate = Date (ep_published episode)
      in \<lparr> item_title = ep_title episode,
            item_description = [],
            item_url = ep_url episode,
            item_guid = ep_uuid episode,
            item_date = pubDate,
            item_enclosure =
              \<lparr> enc_url = ep_url episode,
                enc_size = ep_file_size episode,
                enc_type = ep_file_type episode \<rparr>,
            item_author = pod_author podcast,
            item_custom_elements =
              [Obj [(''itunes:duration'', N (Math_floor (ep_duration episode)))],
               Obj [(''itunes:episodeType'', S (ep_type episode))],
               Obj [(''itunes:image'',
                     Obj [(''_attr'',
                           Obj [(''href'', S (episode_image podcast latestEpisodesMap episode))])])],
               Obj [(''media:content'',
                     Arr [Obj [(''_attr'',
                                Obj [(''url'', S (episode_image podcast latestEpisodesMap episode)),
                                     (''medium'', S ''image''),
                                     (''type'', S ''image/jpeg'')])]])]] \<rparr>)"

text \<open>The receiver of \<open>forEach\<close> on line 113:
  \<open>podcast.episodes.slice(podcast.episodes.length - 10, podcast.episodes.length - 8)\<close>.\<close>

definition selected_episodes :: "Podcast \<Rightarrow> Episode list" where
  "selected_episodes podcast =
     slice (pod_episodes podcast)
       (int (length (pod_episodes podcast)) - 10)
       (int (length (pod_episodes podcast)) - 8)"

text \<open>Lines 72-145: the guard, the feed object, and one \<open>feed.item\<close> call per episode of
  the slice, in order. The result is the feed object as it stands before line 148.\<close>

definition convertToRSS_feed ::
    "string \<Rightarrow> Root option \<Rightarrow> LatestEpisodesMap option \<Rightarrow> js_error + RSS" where
  "convertToRSS_feed now podcastData latestEpisodesMap =
     (case podcastData of
        None \<Rightarrow> Inl (Error ''Invalid podcast JSON structure'')
      | Some doc \<Rightarrow>
          (case root_podcast doc of
             None \<Rightarrow> Inl (Error ''Invalid podcast JSON structure'')
           | Some podcast \<Rightarrow>
               let feed = RSS_new (feed_options now podcast)
               in Inr (foldl (\<lambda>feed episode.
                                RSS_item feed (item_options podcast latestEpisodesMap episode))
                         feed
                         (selected_episodes podcast))))"

section \<open>The request handler (src/mod.ts, lines 152-217)\<close>

subsection \<open>Platform values\<close>

text \<open>\<open>String(error)\<close>: for an \<open>Error\<close> instance its name and message, for any other
  thrown value the rendering it carries.\<close>

fun String_of :: "js_error \<Rightarrow> string" where
  "String_of (Error m) = (if m = [] then ''Error'' else ''Error: '' @ m)"
| "String_of (TypeError m) = (if m = [] then ''TypeError'' else ''TypeError: '' @ m)"
| "String_of (URIError m) = (if m = [] then ''URIError'' else ''URIError: '' @ m)"
| "String_of (SyntaxError m) = (if m = [] then ''SyntaxError'' else ''SyntaxError: '' @ m)"
| "String_of (NonError m) = m"

text \<open>A non-negative integer inside a template literal: its decimal digits.\<close>

fun toString_nat :: "nat \<Rightarrow> string" where
  "toString_nat n =
     (if n < 10 then [''0123456789'' ! n]
      else toString_nat (n div 10) @ [''0123456789'' ! (n mod 10)])"

declare toString_nat.simps [simp del]

text \<open>A request, with \<open>new URL(req.url)\<close> already taken apart: the path and the query
  parameters in order (\<open>searchParams.get\<close> returns the first value of a name, or
  \<open>null\<close>). The method is part of the request.\<close>

record URL =
  pathname :: string
  searchParams :: "(string \<times> string) list"

record Request =
  req_method :: string
  req_url :: URL

definition searchParams_get :: "URL \<Rightarrow> string \<Rightarrow> string option" where
  "searchParams_get url name = map_of (searchParams url) name"

text \<open>\<open>new Response(body, init)\<close>: the status defaults to 200; \<open>resp_headers\<close> are the
  headers given in \<open>init\<close>.\<close>

record Response =
  resp_body :: string
  resp_status :: nat
  resp_headers :: "(string \<times> string) list"

definition Response_new :: "string \<Rightarrow> nat option \<Rightarrow> (string \<times> string) list \<Rightarrow> Response" where
  "Response_new body status headers =
     \<lparr> resp_body = body,
       resp_status = (case status of None \<Rightarrow> 200 | Some c \<Rightarrow> c),
       resp_headers = headers \<rparr>"

datatype console =
    console_log string
  | console_warn string
  | console_error string js_error

text \<open>
  The outcome of \<open>fetch\<close>: the promise rejects, or it gives a response with \<open>ok\<close>,
  \<open>statusText\<close> and a body that \<open>json()\<close> either rejects or parses.

  The source reads the parsed body at type \<open>Root\<close> (line 178) and at type
  \<open>LatestPodcastsRoot\<close> (line 190), unchecked; a parsed body carries both readings.
\<close>

record json_any =
  as_Root :: "Root option"
  as_LatestPodcastsRoot :: "LatestPodcastsRoot option"

record FetchResponse =
  res_ok :: bool
  res_statusText :: string
  res_json :: "js_error + json_any"

datatype fetch_result = Rejected js_error | Fulfilled FetchResponse

text \<open>What the handler calls but the repository does not define: \<open>fetch\<close>,
  \<open>decodeURIComponent\<close> (throws on a malformed escape), the clock and the serialiser
  \<open>feed.xml({ indent: true })\<close>.\<close>

record Env =
  fetch :: "string \<Rightarrow> fetch_result"
  decodeURIComponent :: "string \<Rightarrow> js_error + string"
  now_toUTCString :: string
  xml :: "RSS \<Rightarrow> string"

subsection \<open>convertToRSS with the serialiser (line 148)\<close>

definition convertToRSS ::
    "Env \<Rightarrow> Root option \<Rightarrow> LatestEpisodesMap option \<Rightarrow> js_error + string" where
  "convertToRSS env podcastData latestEpisodesMap =
     (case convertToRSS_feed (now_toUTCString env) podcastData latestEpisodesMap of
        Inl e \<Rightarrow> Inl e
      | Inr feed \<Rightarrow> Inr (xml env feed))"

subsection \<open>The optional second fetch (lines 181-201)\<close>

text \<open>Line 192: \<open>new Map(latestData.podcast.episodes.map(ep => [ep.uuid, ep]))\<close>.\<close>

definition latest_map :: "LatestEpisode list \<Rightarrow> LatestEpisodesMap" where
  "latest_map episodes = Map_new (map (\<lambda>ep. (le_uuid ep, ep)) episodes)"

text \<open>The body of the inner \<open>try\<close> (lines 184-197): the map, if any, and what was written
  to the console; \<open>Inl\<close> when it throws.\<close>

definition latest_try ::
    "Env \<Rightarrow> string \<Rightarrow> js_error + (LatestEpisodesMap option \<times> console list)" where
  "latest_try env latestPodcastJsonUrl =
     (case fetch env latestPodcastJsonUrl of
        Rejected e \<Rightarrow> Inl e
      | Fulfilled latestResponse \<Rightarrow>
          if \<not> res_ok latestResponse then
            Inr (None,
                 [console_warn (''Failed to fetch latest podcasts JSON: ''
                    @ res_statusText latestResponse @ '' from '' @ latestPodcastJsonUrl
                    @ ''. Proceeding without it.'')])
          else
            (case res_json latestResponse of
               Inl e \<Rightarrow> Inl e
             | Inr body \<Rightarrow>
                 (case Option.bind (Option.bind (as_LatestPodcastsRoot body) lpr_podcast)
                         lpd_episodes of
                    Some episodes \<Rightarrow>
                      let latestEpisodesMap = latest_map episodes
                      in Inr (Some latestEpisodesMap,
                              [console_log (''Successfully fetched and mapped ''
                                 @ toString_nat (Map_size latestEpisodesMap)
                                 @ '' episodes from latest podcasts URL.'')])
                  | None \<Rightarrow>
                      Inr (None,
                           [console_warn (''Latest podcasts JSON from '' @ latestPodcastJsonUrl
                              @ '' did not contain expected 'podcast.episodes' structure.''
                              @ '' Proceeding without it.'')]))))"

text \<open>The inner \<open>try\<close> with its \<open>catch\<close> (lines 183-200).\<close>

definition latest_fetch ::
    "Env \<Rightarrow> string \<Rightarrow> LatestEpisodesMap option \<times> console list" where
  "latest_fetch env latestPodcastJsonUrl =
     (case latest_try env latestPodcastJsonUrl of
        Inr r \<Rightarrow> r
      | Inl latestError \<Rightarrow>
          (None,
           [console_warn (''Error processing latest podcasts JSON from '' @ latestPodcastJsonUrl
              @ '': ''
              @ (if instanceof_Error latestError then message latestError
                 else String_of latestError)
              @ ''. Proceeding without it.'')]))"

subsection \<open>The outer \<open>try\<close> (lines 166-209) and the handler\<close>

text \<open>The body of the outer \<open>try\<close> up to line 204: the feed text or the thrown value, with
  the console output.\<close>

definition handler_try ::
    "Env \<Rightarrow> string \<Rightarrow> string option \<Rightarrow> (js_error + string) \<times> console list" where
  "handler_try env urlParam latestPodcastsUrlParam =
     (case decodeURIComponent env urlParam of
        Inl e \<Rightarrow> (Inl e, [])
      | Inr podcastJsonUrl \<Rightarrow>
          (case (case if_truthy latestPodcastsUrlParam of
                   Some p \<Rightarrow> (case decodeURIComponent env p of
                                 Inl e \<Rightarrow> Inl e
                               | Inr u \<Rightarrow> Inr (Some u))
                 | None \<Rightarrow> Inr None) of
             Inl e \<Rightarrow> (Inl e, [])
           | Inr latestPodcastJsonUrl \<Rightarrow>
               (case fetch env podcastJsonUrl of
                  Rejected e \<Rightarrow> (Inl e, [])
                | Fulfilled response \<Rightarrow>
                    if \<not> res_ok response then
                      (Inl (Error (''Failed to fetch podcast JSON: '' @ res_statusText response
                              @ '' from '' @ podcastJsonUrl)), [])
                    else
                      (case res_json response of
                         Inl e \<Rightarrow> (Inl e, [])
                       | Inr body \<Rightarrow>
                           let podcastData = as_Root body;
                               (latestEpisodesMap, out) =
                                 (case if_truthy latestPodcastJsonUrl of
                                    Some u \<Rightarrow> latest_fetch env u
                                  | None \<Rightarrow> (None, []))
                           in (convertToRSS env podcastData latestEpisodesMap, out)))))"

definition handler :: "Env \<Rightarrow> Request \<Rightarrow> Response \<times> console list" where
  "handler env req =
     (let url = req_url req
      in if pathname url \<noteq> ''/convert'' then (Response_new ''Not Found'' (Some 404) [], [])
         else
           let urlParam = searchParams_get url ''url'';
               latestPodcastsUrlParam = searchParams_get url ''latestPodcastsUrl''
           in (case if_truthy urlParam of
                 None \<Rightarrow>
                   (Response_new ''Missing required `url` query parameter'' (Some 400) [], [])
               | Some urlParam \<Rightarrow>
                   (case handler_try env urlParam latestPodcastsUrlParam of
                      (Inr rssFeed, out) \<Rightarrow>
                        (Response_new rssFeed None
                           [(''Content-Type'', ''application/rss+xml; charset=utf-8'')],
                         out)
                    | (Inl error, out) \<Rightarrow>
                        (if instanceof_Error error
                         then Response_new (''Failed to convert podcast JSON: '' @ message error)
                                (Some 500) []
                         else Response_new (''Failed to convert podcast JSON: '' @ String_of error)
                                (Some 500) [],
                         out @ [console_error ''Conversion error:'' error]))))"

section \<open>Reading the output\<close>

text \<open>
  Observers for stating properties. \<open>emitted_items\<close> are the item options handed to the
  package, in order (none when the conversion throws). In the package's element notation
  an element is an object with one key, its name; attributes sit under the key \<open>_attr\<close>,
  either in the element's object or in an object of the element's array.
\<close>

definition emitted_items ::
    "string \<Rightarrow> Root option \<Rightarrow> LatestEpisodesMap option \<Rightarrow> ItemOptions list" where
  "emitted_items now podcastData latestEpisodesMap =
     (case convertToRSS_feed now podcastData latestEpisodesMap of
        Inl e \<Rightarrow> []
      | Inr feed \<Rightarrow> rss_items feed)"

fun js_prop :: "js_value \<Rightarrow> string \<Rightarrow> js_value option" where
  "js_prop (Obj kvs) k = map_of kvs k"
| "js_prop v k = None"

fun xml_element :: "js_value list \<Rightarrow> string \<Rightarrow> js_value option" where
  "xml_element [] name = None"
| "xml_element (e # es) name = (case js_prop e name of Some v \<Rightarrow> Some v | None \<Rightarrow> xml_element es name)"

fun xml_attr :: "js_value \<Rightarrow> string \<Rightarrow> js_value option" where
  "xml_attr (Obj kvs) a = (case map_of kvs ''_attr'' of None \<Rightarrow> None | Some ats \<Rightarrow> js_prop ats a)"
| "xml_attr (Arr es) a = (case xml_element es ''_attr'' of None \<Rightarrow> None | Some ats \<Rightarrow> js_prop ats a)"
| "xml_attr v a = None"

definition element_attr :: "js_value list \<Rightarrow> string \<Rightarrow> string \<Rightarrow> js_value option" where
  "element_attr es name a = (case xml_element es name of None \<Rightarrow> None | Some v \<Rightarrow> xml_attr v a)"

text \<open>The podcast-level image, or the empty string when the podcast has none.\<close>

definition podcast_image :: "Podcast \<Rightarrow> string" where
  "podcast_image p = (case pod_image_url p of None \<Rightarrow> [] | Some u \<Rightarrow> u)"

text \<open>The enrichment entry of an episode, if a map was supplied and holds its uuid.\<close>

definition enrichment_entry :: "LatestEpisodesMap option \<Rightarrow> Episode \<Rightarrow> LatestEpisode option" where
  "enrichment_entry m e = (case m of None \<Rightarrow> None | Some mp \<Rightarrow> Map_get mp (ep_uuid e))"

text \<open>Image priority by presence of a map entry, in the words of the specification:
  the entry's image if the map has an entry for the uuid, else the podcast-level image,
  else the empty string.\<close>

definition spec_image_by_presence ::
    "Podcast \<Rightarrow> LatestEpisodesMap option \<Rightarrow> Episode \<Rightarrow> string" where
  "spec_image_by_presence p m e =
     (case enrichment_entry m e of None \<Rightarrow> podcast_image p | Some l \<Rightarrow> le_image l)"

text \<open>Image priority by value: the entry's image if there is an entry and its image is not
  empty, else the podcast-level image, else the empty string.\<close>

definition image_by_value ::
    "Podcast \<Rightarrow> LatestEpisodesMap option \<Rightarrow> Episode \<Rightarrow> string" where
  "image_by_value p m e =
     (case enrichment_entry m e of
        None \<Rightarrow> podcast_image p
      | Some l \<Rightarrow> if le_image l \<noteq> [] then le_image l else podcast_image p)"

text \<open>Truncation toward zero, in the words of the specification.\<close>

definition spec_truncate :: "rat \<Rightarrow> int" where
  "spec_truncate x = (if 0 \<le> x then \<lfloor>x\<rfloor> else \<lceil>x\<rceil>)"

text \<open>
  \<open>primary_ok env req podcastData\<close>: the request is for \<open>/convert\<close>, has a non-empty
  \<open>url\<close> parameter, every parameter present decodes, and the first fetch answers with a
  success status and a body that parses and reads as \<open>podcastData\<close>. These are the
  requests that reach line 204.
\<close>

definition primary_ok :: "Env \<Rightarrow> Request \<Rightarrow> Root option \<Rightarrow> bool" where
  "primary_ok env req podcastData =
     (pathname (req_url req) = ''/convert''
      \<and> (case if_truthy (searchParams_get (req_url req) ''url'') of
            None \<Rightarrow> False
          | Some u \<Rightarrow>
              (case decodeURIComponent env u of
                 Inl e \<Rightarrow> False
               | Inr podcastJsonUrl \<Rightarrow>
                   (case fetch env podcastJsonUrl of
                      Rejected e \<Rightarrow> False
                    | Fulfilled response \<Rightarrow>
                        res_ok response
                        \<and> (case res_json response of
                              Inl e \<Rightarrow> False
                            | Inr body \<Rightarrow> as_Root body = podcastData))))
      \<and> (case if_truthy (searchParams_get (req_url req) ''latestPodcastsUrl'') of
            None \<Rightarrow> True
          | Some p \<Rightarrow> (case decodeURIComponent env p of Inl e \<Rightarrow> False | Inr u \<Rightarrow> True)))"

text \<open>What the optional second fetch contributes for a request: the map handed to
  \<open>convertToRSS\<close> and the console output (lines 168-171 and 181-201).\<close>

definition request_latest :: "Env \<Rightarrow> Request \<Rightarrow> LatestEpisodesMap option \<times> console list" where
  "request_latest env req =
     (case if_truthy (searchParams_get (req_url req) ''latestPodcastsUrl'') of
        None \<Rightarrow> (None, [])
      | Some p \<Rightarrow>
          (case decodeURIComponent env p of
             Inl e \<Rightarrow> (None, [])
           | Inr latestPodcastJsonUrl \<Rightarrow>
               (case if_truthy (Some latestPodcastJsonUrl) of
                  None \<Rightarrow> (None, [])
                | Some u \<Rightarrow> latest_fetch env u)))"

text \<open>The four ways the second fetch fails: the request fails (network error), the status
  is not a success, the body is not JSON, or the document has no \<open>podcast.episodes\<close>.\<close>

datatype latest_failure = NetworkError | NonSuccessStatus | MalformedJSON | MissingEpisodes

definition latest_outcome :: "Env \<Rightarrow> string \<Rightarrow> latest_failure + LatestEpisode list" where
  "latest_outcome env u =
     (case fetch env u of
        Rejected e \<Rightarrow> Inl NetworkError
      | Fulfilled r \<Rightarrow>
          if \<not> res_ok r then Inl NonSuccessStatus
          else (case res_json r of
                  Inl e \<Rightarrow> Inl MalformedJSON
                | Inr body \<Rightarrow>
                    (case as_LatestPodcastsRoot body of
                       None \<Rightarrow> Inl MissingEpisodes
                     | Some d \<Rightarrow>
                         (case lpr_podcast d of
                            None \<Rightarrow> Inl MissingEpisodes
                          | Some pd \<Rightarrow>
                              (case lpd_episodes pd of
                                 None \<Rightarrow> Inl MissingEpisodes
                               | Some eps \<Rightarrow> Inr eps)))))"

text \<open>The same request without its \<open>latestPodcastsUrl\<close> parameter.\<close>

definition without_latest :: "Request \<Rightarrow> Request" where
  "without_latest req =
     req\<lparr>req_url := (req_url req)
            \<lparr>searchParams := filter (\<lambda>kv. fst kv \<noteq> ''latestPodcastsUrl'')
                                (searchParams (req_url req))\<rparr>\<rparr>"

section \<open>Sample documents and requests\<close>

definition sample_episode :: "string \<Rightarrow> number \<Rightarrow> Episode" where
  "sample_episode u d =
     \<lparr> ep_uuid = u, ep_title = ''Episode '' @ u, ep_url = ''http://x/'' @ u,
       ep_file_type = ''audio/mpeg'', ep_file_size = Finite 1000, ep_duration = d,
       ep_published = ''2024-01-01T00:00:00Z'', ep_type = ''full'', ep_image_url = None \<rparr>"

definition sample_podcast :: "Episode list \<Rightarrow> string option \<Rightarrow> Podcast" where
  "sample_podcast eps img =
     \<lparr> pod_url = ''http://x/show'', pod_title = ''Tom & Jerry <live>'', pod_author = ''A. Author'',
       pod_description = ''About \"x\" & y'', pod_description_html = ''<p>About</p>'',
       pod_category = ''News'', pod_audio = True, pod_show_type = ''episodic'',
       pod_uuid = ''p1'', pod_fundings = [], pod_guid = ''g1'', pod_is_private = False,
       pod_transcript_eligible = False, pod_episodes = eps, pod_image_url = img \<rparr>"

definition sample_root :: "Podcast option \<Rightarrow> Root" where
  "sample_root p =
     \<lparr> root_episode_frequency = ''weekly'', root_estimated_next_episode_at = ''2024-02-01'',
       root_has_seasons = False, root_season_count = Finite 0, root_episode_count = Finite 12,
       root_has_more_episodes = False, root_podcast = p \<rparr>"

definition sample_latest :: "string \<Rightarrow> string \<Rightarrow> string \<Rightarrow> LatestEpisode" where
  "sample_latest u t img =
     \<lparr> le_uuid = u, le_title = t, le_url = ''http://x/'' @ u,
       le_published = ''2024-01-01T00:00:00Z'', le_show_notes = [], le_hash = ''h'',
       le_modified = Finite 0, le_image = img, le_transcripts = [] \<rparr>"

text \<open>Twelve episodes \<open>e0\<close> ... \<open>e11\<close>, each 125.9 seconds long, under a podcast with an
  image.\<close>

definition twelve_episodes :: "Episode list" where
  "twelve_episodes =
     map (\<lambda>u. sample_episode u (Finite (1259 / 10)))
       [''e0'', ''e1'', ''e2'', ''e3'', ''e4'', ''e5'', ''e6'', ''e7'', ''e8'', ''e9'', ''e10'',
        ''e11'']"

definition twelve_podcast :: Podcast where
  "twelve_podcast = sample_podcast twelve_episodes (Some ''http://x/pod.jpg'')"

definition twelve_root :: Root where
  "twelve_root = sample_root (Some twelve_podcast)"

text \<open>Ten episodes with a negative, fractional duration.\<close>

definition negative_podcast :: Podcast where
  "negative_podcast =
     sample_podcast
       (map (\<lambda>u. sample_episode u (Finite (- (3 / 2))))
          [''n0'', ''n1'', ''n2'', ''n3'', ''n4'', ''n5'', ''n6'', ''n7'', ''n8'', ''n9''])
       None"

text \<open>Ten episodes, the first lasting \<open>Infinity\<close> and the second \<open>-Infinity\<close> seconds
  (the JSON numbers \<open>1e400\<close> and \<open>-1e400\<close>).\<close>

definition nonfinite_podcast :: Podcast where
  "nonfinite_podcast =
     sample_podcast
       (sample_episode ''i0'' PosInfinity # sample_episode ''i1'' NegInfinity
        # map (\<lambda>u. sample_episode u (Finite 60))
            [''i2'', ''i3'', ''i4'', ''i5'', ''i6'', ''i7'', ''i8'', ''i9''])
       None"

text \<open>An environment serving the documents above: \<open>null.json\<close> is the JSON text
  \<open>null\<close>, \<open>bare.json\<close> an object without \<open>podcast\<close>, \<open>latest.json\<close> a
  latest-episodes document for \<open>e2\<close>; any other URL answers 500. The serialiser is a
  stand-in that lists the guids.\<close>

definition sample_fetch :: "string \<Rightarrow> fetch_result" where
  "sample_fetch u =
     (if u = ''http://x/podcast.json'' then
        Fulfilled \<lparr> res_ok = True, res_statusText = ''OK'',
          res_json = Inr \<lparr> as_Root = Some twelve_root, as_LatestPodcastsRoot = None \<rparr> \<rparr>
      else if u = ''http://x/null.json'' then
        Fulfilled \<lparr> res_ok = True, res_statusText = ''OK'',
          res_json = Inr \<lparr> as_Root = None, as_LatestPodcastsRoot = None \<rparr> \<rparr>
      else if u = ''http://x/bare.json'' then
        Fulfilled \<lparr> res_ok = True, res_statusText = ''OK'',
          res_json = Inr \<lparr> as_Root = Some (sample_root None), as_LatestPodcastsRoot = None \<rparr> \<rparr>
      else if u = ''http://x/latest.json'' then
        Fulfilled \<lparr> res_ok = True, res_statusText = ''OK'',
          res_json = Inr \<lparr> as_Root = None,
            as_LatestPodcastsRoot =
              Some \<lparr> lpr_podcast =
                Some \<lparr> lpd_episodes =
                  Some [sample_latest ''e2'' ''Two'' ''http://x/e2.jpg''] \<rparr> \<rparr> \<rparr> \<rparr>
      else
        Fulfilled \<lparr> res_ok = False, res_statusText = ''Internal Server Error'',
          res_json = Inl (SyntaxError ''Unexpected token'') \<rparr>)"

definition sample_env :: Env where
  "sample_env =
     \<lparr> fetch = sample_fetch,
       decodeURIComponent = Inr,
       now_toUTCString = ''Mon, 02 Nov 2026 00:00:00 GMT'',
       xml = (\<lambda>feed. concat (map item_guid (rss_items feed))) \<rparr>"

definition sample_request :: "string \<Rightarrow> string \<Rightarrow> (string \<times> string) list \<Rightarrow> Request" where
  "sample_request method path params =
     \<lparr> req_method = method, req_url = \<lparr> pathname = path, searchParams = params \<rparr> \<rparr>"

text \<open>Enrichment maps for \<open>e2\<close>: one with an image, one whose image is the empty
  string.\<close>

definition e2_map :: LatestEpisodesMap where
  "e2_map = latest_map [sample_latest ''e2'' ''Two'' ''http://x/e2.jpg'']"

definition e2_empty_image_map :: LatestEpisodesMap where
  "e2_empty_image_map = latest_map [sample_latest ''e2'' ''Two'' []]"

text \<open>Requests to the sample environment.\<close>

definition get_podcast :: Request where
  "get_podcast = sample_request ''GET'' ''/convert'' [(''url'', ''http://x/podcast.json'')]"

definition post_podcast :: Request where
  "post_podcast = sample_request ''POST'' ''/convert'' [(''url'', ''http://x/podcast.json'')]"

definition get_null :: Request where
  "get_null = sample_request ''GET'' ''/convert'' [(''url'', ''http://x/null.json'')]"

definition get_bare :: Request where
  "get_bare = sample_request ''GET'' ''/convert'' [(''url'', ''http://x/bare.json'')]"

definition get_other :: Request where
  "get_other = sample_request ''GET'' ''/other'' [(''url'', ''http://x/podcast.json'')]"

definition get_podcast_failing_latest :: Request where
  "get_podcast_failing_latest =
     sample_request ''GET'' ''/convert''
       [(''url'', ''http://x/podcast.json''), (''latestPodcastsUrl'', ''http://x/gone.json'')]"

section \<open>Properties of the conversion\<close>

lemma foldl_RSS_item:
  "foldl (\<lambda>feed e. RSS_item feed (f e)) feed0 xs =
     feed0\<lparr>rss_items := rss_items feed0 @ map f xs\<rparr>"
  by (induction xs arbitrary: feed0) (simp_all add: RSS_item_def)

lemma take_2_drop:
  assumes "Suc (Suc k) \<le> length xs"
  shows "take 2 (drop k xs) = [xs ! k, xs ! Suc k]"
proof -
  have "drop k xs = xs ! k # drop (Suc k) xs"
    using assms by (simp add: Cons_nth_drop_Suc)
  moreover have "drop (Suc k) xs = xs ! Suc k # drop (Suc (Suc k)) xs"
    using assms by (simp add: Cons_nth_drop_Suc)
  ultimately show ?thesis
    by (simp add: numeral_2_eq_2)
qed

lemma slice_last_ten:
  assumes "10 \<le> length xs"
  shows "slice xs (int (length xs) - 10) (int (length xs) - 8) =
           [xs ! (length xs - 10), xs ! (length xs - 9)]"
proof -
  let ?n = "length xs"
  have "slice xs (int ?n - 10) (int ?n - 8) = take 2 (drop (?n - 10) xs)"
    using assms by (simp add: slice_def Let_def nat_diff_distrib)
  also have "\<dots> = [xs ! (?n - 10), xs ! Suc (?n - 10)]"
    using assms by (intro take_2_drop) simp
  also have "Suc (?n - 10) = ?n - 9"
    using assms by simp
  finally show ?thesis .
qed

lemma convertToRSS_feed_valid:
  assumes "root_podcast doc = Some p"
  shows "convertToRSS_feed now (Some doc) m =
           Inr \<lparr>rss_options = feed_options now p,
                rss_items = map (item_options p m) (selected_episodes p)\<rparr>"
  using assms by (simp add: convertToRSS_feed_def foldl_RSS_item RSS_new_def)

lemma emitted_items_valid:
  assumes "root_podcast doc = Some p"
  shows "emitted_items now (Some doc) m = map (item_options p m) (selected_episodes p)"
  using assms by (simp add: emitted_items_def convertToRSS_feed_valid)

lemma selected_twelve:
  "selected_episodes twelve_podcast =
     [sample_episode ''e2'' (Finite (1259 / 10)), sample_episode ''e3'' (Finite (1259 / 10))]"
  by (simp add: selected_episodes_def twelve_podcast_def sample_podcast_def
        twelve_episodes_def slice_def)

subsection \<open>Episode selection\<close>

text \<open>
  C1. For a document with a podcast of at least 10 episodes the conversion succeeds and
  hands exactly two items to the package: first the one built from the episode at index
  \<open>length - 10\<close>, then the one built from the episode at index \<open>length - 9\<close>; their
  guids are the uuids of these two episodes. The text returned is the serialisation of
  that feed.
\<close>

theorem convertToRSS_emits_two_items:
  assumes "root_podcast doc = Some p" and "10 \<le> length (pod_episodes p)"
  shows "\<exists>feed. convertToRSS_feed (now_toUTCString env) (Some doc) m = Inr feed
           \<and> convertToRSS env (Some doc) m = Inr (xml env feed)
           \<and> rss_items feed =
               [item_options p m (pod_episodes p ! (length (pod_episodes p) - 10)),
                item_options p m (pod_episodes p ! (length (pod_episodes p) - 9))]
           \<and> map item_guid (rss_items feed) =
               [ep_uuid (pod_episodes p ! (length (pod_episodes p) - 10)),
                ep_uuid (pod_episodes p ! (length (pod_episodes p) - 9))]"
  using assms
  by (simp add: convertToRSS_def convertToRSS_feed_valid selected_episodes_def
        slice_last_ten item_options_def)

theorem convertToRSS_emits_two_items_witness:
  "root_podcast twelve_root = Some twelve_podcast
   \<and> 10 \<le> length (pod_episodes twelve_podcast)
   \<and> (\<exists>feed. convertToRSS_feed (now_toUTCString sample_env) (Some twelve_root) None = Inr feed
          \<and> convertToRSS sample_env (Some twelve_root) None = Inr ''e2e3''
          \<and> map item_guid (rss_items feed) = [''e2'', ''e3''])"
proof -
  have a: "root_podcast twelve_root = Some twelve_podcast"
    by (simp add: twelve_root_def sample_root_def)
  have b: "10 \<le> length (pod_episodes twelve_podcast)"
    by (simp add: twelve_podcast_def sample_podcast_def twelve_episodes_def)
  show ?thesis
    using convertToRSS_emits_two_items [OF a b, of sample_env None] a b
    by (auto simp: twelve_podcast_def sample_podcast_def twelve_episodes_def
          sample_episode_def sample_env_def)
qed

subsection \<open>Feed-level fields\<close>

text \<open>
  C9. For a document with a podcast, the options handed to the package carry the podcast's
  title, description and author unchanged.
\<close>

theorem feed_level_fields_verbatim:
  assumes "root_podcast doc = Some p"
  shows "\<exists>feed. convertToRSS_feed now (Some doc) m = Inr feed
           \<and> feed_title (rss_options feed) = pod_title p
           \<and> feed_description (rss_options feed) = pod_description p
           \<and> feed_author (rss_options feed) = pod_author p"
  using assms by (simp add: convertToRSS_feed_valid feed_options_def)

theorem feed_level_fields_verbatim_witness:
  "root_podcast twelve_root = Some twelve_podcast
   \<and> (\<exists>feed. convertToRSS_feed ''now'' (Some twelve_root) None = Inr feed
          \<and> feed_title (rss_options feed) = ''Tom & Jerry <live>''
          \<and> feed_description (rss_options feed) = ''About \"x\" & y''
          \<and> feed_author (rss_options feed) = ''A. Author'')"
proof -
  have a: "root_podcast twelve_root = Some twelve_podcast"
    by (simp add: twelve_root_def sample_root_def)
  show ?thesis
    using feed_level_fields_verbatim [OF a, of "''now''" None] a
    by (auto simp: twelve_podcast_def sample_podcast_def)
qed

subsection \<open>Episode elements\<close>

lemma js_or_str_podcast_image: "js_or_str (pod_image_url p) [] = podcast_image p"
  by (simp add: js_or_str_def podcast_image_def split: option.splits)

lemma episode_image_by_value: "episode_image p m e = image_by_value p m e"
proof (cases "enrichment_entry m e")
  case None
  then show ?thesis
    by (auto simp: episode_image_def image_by_value_def enrichment_entry_def js_or_def
          js_or_str_podcast_image split: option.splits)
next
  case (Some l)
  then show ?thesis
    by (auto simp: episode_image_def image_by_value_def enrichment_entry_def js_or_def
          js_or_str_def podcast_image_def split: option.splits)
qed

lemma item_duration_element:
  "xml_element (item_custom_elements (item_options p m e)) ''itunes:duration'' =
     Some (N (Math_floor (ep_duration e)))"
  by (simp add: item_options_def)

lemma item_image_elements:
  "element_attr (item_custom_elements (item_options p m e)) ''itunes:image'' ''href'' =
     Some (S (episode_image p m e))"
  "element_attr (item_custom_elements (item_options p m e)) ''media:content'' ''url'' =
     Some (S (episode_image p m e))"
  "element_attr (item_custom_elements (item_options p m e)) ''media:content'' ''medium'' =
     Some (S ''image'')"
  "element_attr (item_custom_elements (item_options p m e)) ''media:content'' ''type'' =
     Some (S ''image/jpeg'')"
  by (simp_all add: item_options_def element_attr_def)

lemma twelve_root_podcast: "root_podcast twelve_root = Some twelve_podcast"
  by (simp add: twelve_root_def sample_root_def)

lemma e2_map_get:
  "Map_get e2_map u =
     (if u = ''e2'' then Some (sample_latest ''e2'' ''Two'' ''http://x/e2.jpg'') else None)"
  by (simp add: e2_map_def latest_map_def Map_new_def Map_get_def sample_latest_def)

lemma e2_empty_image_map_get:
  "Map_get e2_empty_image_map u =
     (if u = ''e2'' then Some (sample_latest ''e2'' ''Two'' []) else None)"
  by (simp add: e2_empty_image_map_def latest_map_def Map_new_def Map_get_def
        sample_latest_def)

lemma twelve_podcast_image: "podcast_image twelve_podcast = ''http://x/pod.jpg''"
  by (simp add: podcast_image_def twelve_podcast_def sample_podcast_def)

text \<open>
  C6, as amended. For a document with a podcast, every item handed to the package has an
  \<open>itunes:image\<close> whose \<open>href\<close> and a \<open>media:content\<close> whose \<open>url\<close> are the same
  string: the image of the enrichment entry for the episode's uuid if there is an entry and
  its image is not empty, else the podcast-level image, else the empty string. The
  \<open>media:content\<close> element also has \<open>medium\<close> \<open>image\<close> and \<open>type\<close> \<open>image/jpeg\<close>.
\<close>

theorem episode_image_elements:
  assumes "root_podcast doc = Some p"
  shows "\<exists>feed. convertToRSS_feed now (Some doc) m = Inr feed
           \<and> length (rss_items feed) = length (selected_episodes p)
           \<and> (\<forall>i < length (selected_episodes p).
                element_attr (item_custom_elements (rss_items feed ! i))
                    ''itunes:image'' ''href'' =
                  Some (S (image_by_value p m (selected_episodes p ! i)))
                \<and> element_attr (item_custom_elements (rss_items feed ! i))
                    ''media:content'' ''url'' =
                  Some (S (image_by_value p m (selected_episodes p ! i)))
                \<and> element_attr (item_custom_elements (rss_items feed ! i))
                    ''media:content'' ''medium'' = Some (S ''image'')
                \<and> element_attr (item_custom_elements (rss_items feed ! i))
                    ''media:content'' ''type'' = Some (S ''image/jpeg''))"
  using assms
  by (simp add: convertToRSS_feed_valid item_image_elements episode_image_by_value)

theorem episode_image_elements_witness:
  "root_podcast twelve_root = Some twelve_podcast
   \<and> (\<exists>feed. convertToRSS_feed ''now'' (Some twelve_root) (Some e2_map) = Inr feed
          \<and> map item_guid (rss_items feed) = [''e2'', ''e3'']
          \<and> element_attr (item_custom_elements (rss_items feed ! 0)) ''itunes:image'' ''href''
              = Some (S ''http://x/e2.jpg'')
          \<and> element_attr (item_custom_elements (rss_items feed ! 0)) ''media:content'' ''url''
              = Some (S ''http://x/e2.jpg'')
          \<and> element_attr (item_custom_elements (rss_items feed ! 1)) ''itunes:image'' ''href''
              = Some (S ''http://x/pod.jpg'')
          \<and> element_attr (item_custom_elements (rss_items feed ! 1)) ''media:content'' ''url''
              = Some (S ''http://x/pod.jpg''))"
proof -
  note a = twelve_root_podcast
  from episode_image_elements [OF a, of "''now''" "Some e2_map"]
  obtain feed where f: "convertToRSS_feed ''now'' (Some twelve_root) (Some e2_map) = Inr feed"
    and img: "\<forall>i < length (selected_episodes twelve_podcast).
                element_attr (item_custom_elements (rss_items feed ! i))
                    ''itunes:image'' ''href'' =
                  Some (S (image_by_value twelve_podcast (Some e2_map)
                             (selected_episodes twelve_podcast ! i)))
                \<and> element_attr (item_custom_elements (rss_items feed ! i))
                    ''media:content'' ''url'' =
                  Some (S (image_by_value twelve_podcast (Some e2_map)
                             (selected_episodes twelve_podcast ! i)))"
    by blast
  have g: "map item_guid (rss_items feed) = [''e2'', ''e3'']"
    using f by (auto simp: convertToRSS_feed_valid [OF a] selected_twelve item_options_def
                  sample_episode_def)
  have v0: "image_by_value twelve_podcast (Some e2_map) (selected_episodes twelve_podcast ! 0)
              = ''http://x/e2.jpg''"
    by (simp add: selected_twelve image_by_value_def enrichment_entry_def e2_map_get
          sample_episode_def sample_latest_def)
  have v1: "image_by_value twelve_podcast (Some e2_map) (selected_episodes twelve_podcast ! 1)
              = ''http://x/pod.jpg''"
    by (simp add: selected_twelve image_by_value_def enrichment_entry_def e2_map_get
          sample_episode_def twelve_podcast_image)
  have l: "length (selected_episodes twelve_podcast) = 2"
    by (simp add: selected_twelve)
  from img l v0 have i0: "element_attr (item_custom_elements (rss_items feed ! 0))
        ''itunes:image'' ''href'' = Some (S ''http://x/e2.jpg'')
     \<and> element_attr (item_custom_elements (rss_items feed ! 0))
        ''media:content'' ''url'' = Some (S ''http://x/e2.jpg'')"
    by (metis zero_less_numeral)
  from img l v1 have i1: "element_attr (item_custom_elements (rss_items feed ! 1))
        ''itunes:image'' ''href'' = Some (S ''http://x/pod.jpg'')
     \<and> element_attr (item_custom_elements (rss_items feed ! 1))
        ''media:content'' ''url'' = Some (S ''http://x/pod.jpg'')"
    by (metis one_less_numeral_iff semiring_norm(76))
  show ?thesis
    using a f g i0 i1 by simp
qed

text \<open>
  C6, as stated, fails: the enrichment map has an entry for \<open>e2\<close> whose image is the
  empty string, the podcast has an image, and the item for \<open>e2\<close> carries the podcast's
  image, not the entry's.
\<close>

theorem episode_image_by_presence_counterexample:
  "ep_uuid (selected_episodes twelve_podcast ! 0) = ''e2''
   \<and> Map_get e2_empty_image_map ''e2'' = Some (sample_latest ''e2'' ''Two'' [])
   \<and> spec_image_by_presence twelve_podcast (Some e2_empty_image_map)
        (selected_episodes twelve_podcast ! 0) = []
   \<and> element_attr
        (item_custom_elements
           (emitted_items ''now'' (Some twelve_root) (Some e2_empty_image_map) ! 0))
        ''itunes:image'' ''href'' = Some (S ''http://x/pod.jpg'')
   \<and> element_attr
        (item_custom_elements
           (emitted_items ''now'' (Some twelve_root) (Some e2_empty_image_map) ! 0))
        ''media:content'' ''url'' = Some (S ''http://x/pod.jpg'')"
  by (simp add: emitted_items_valid [OF twelve_root_podcast] selected_twelve
        item_image_elements episode_image_by_value image_by_value_def
        spec_image_by_presence_def enrichment_entry_def e2_empty_image_map_get
        sample_episode_def sample_latest_def twelve_podcast_image)

text \<open>
  C10. When the enrichment map has an entry for a selected episode's uuid and that entry's
  image is the empty string, the item's \<open>itunes:image\<close> \<open>href\<close> and \<open>media:content\<close>
  \<open>url\<close> are the podcast-level image (the empty string if the podcast has none).
\<close>

theorem enrichment_empty_image_falls_back:
  assumes "root_podcast doc = Some p"
  shows "\<exists>feed. convertToRSS_feed now (Some doc) (Some mp) = Inr feed
           \<and> length (rss_items feed) = length (selected_episodes p)
           \<and> (\<forall>i < length (selected_episodes p). \<forall>l.
                Map_get mp (ep_uuid (selected_episodes p ! i)) = Some l \<and> le_image l = [] \<longrightarrow>
                  element_attr (item_custom_elements (rss_items feed ! i))
                      ''itunes:image'' ''href'' = Some (S (podcast_image p))
                  \<and> element_attr (item_custom_elements (rss_items feed ! i))
                      ''media:content'' ''url'' = Some (S (podcast_image p)))"
  using assms
  by (auto simp: convertToRSS_feed_valid item_image_elements episode_image_by_value
        image_by_value_def enrichment_entry_def)

theorem enrichment_empty_image_falls_back_witness:
  "root_podcast twelve_root = Some twelve_podcast
   \<and> Map_get e2_empty_image_map (ep_uuid (selected_episodes twelve_podcast ! 0))
       = Some (sample_latest ''e2'' ''Two'' [])
   \<and> le_image (sample_latest ''e2'' ''Two'' []) = []
   \<and> (\<exists>feed. convertToRSS_feed ''now'' (Some twelve_root) (Some e2_empty_image_map) = Inr feed
          \<and> element_attr (item_custom_elements (rss_items feed ! 0)) ''itunes:image'' ''href''
              = Some (S ''http://x/pod.jpg'')
          \<and> element_attr (item_custom_elements (rss_items feed ! 0)) ''media:content'' ''url''
              = Some (S ''http://x/pod.jpg''))"
proof -
  note a = twelve_root_podcast
  have b: "Map_get e2_empty_image_map (ep_uuid (selected_episodes twelve_podcast ! 0))
             = Some (sample_latest ''e2'' ''Two'' [])"
    by (simp add: selected_twelve sample_episode_def e2_empty_image_map_get)
  have c: "le_image (sample_latest ''e2'' ''Two'' []) = []"
    by (simp add: sample_latest_def)
  have l: "0 < length (selected_episodes twelve_podcast)"
    by (simp add: selected_twelve)
  from enrichment_empty_image_falls_back [OF a, of "''now''" e2_empty_image_map]
  obtain feed where
    f: "convertToRSS_feed ''now'' (Some twelve_root) (Some e2_empty_image_map) = Inr feed"
    and img: "\<forall>i < length (selected_episodes twelve_podcast). \<forall>l.
                Map_get e2_empty_image_map (ep_uuid (selected_episodes twelve_podcast ! i))
                  = Some l \<and> le_image l = [] \<longrightarrow>
                  element_attr (item_custom_elements (rss_items feed ! i))
                      ''itunes:image'' ''href'' = Some (S (podcast_image twelve_podcast))
                  \<and> element_attr (item_custom_elements (rss_items feed ! i))
                      ''media:content'' ''url'' = Some (S (podcast_image twelve_podcast))"
    by blast
  from img l b c have
    "element_attr (item_custom_elements (rss_items feed ! 0)) ''itunes:image'' ''href''
       = Some (S (podcast_image twelve_podcast))
     \<and> element_attr (item_custom_elements (rss_items feed ! 0)) ''media:content'' ''url''
       = Some (S (podcast_image twelve_podcast))"
    by blast
  then show ?thesis
    using a b c f by (simp add: twelve_podcast_image)
qed

subsection \<open>Duration\<close>

lemma floor_is_truncation_if_nonneg: "0 \<le> x \<Longrightarrow> \<lfloor>x\<rfloor> = spec_truncate x"
  by (simp add: spec_truncate_def)

lemma selected_nonfinite:
  "selected_episodes nonfinite_podcast =
     [sample_episode ''i0'' PosInfinity, sample_episode ''i1'' NegInfinity]"
  by (simp add: selected_episodes_def nonfinite_podcast_def sample_podcast_def slice_def)

text \<open>
  C7, as amended. For a document with a podcast, every item handed to the package for an
  episode whose duration is finite has an \<open>itunes:duration\<close> equal to the floor of the
  duration, the greatest integer not above it; for a finite duration that is not negative
  this is the duration truncated toward zero. A duration that is not finite (\<open>Infinity\<close>
  or \<open>-Infinity\<close>) is emitted unchanged.
\<close>

theorem episode_duration_floor:
  assumes "root_podcast doc = Some p"
  shows "\<exists>feed. convertToRSS_feed now (Some doc) m = Inr feed
           \<and> length (rss_items feed) = length (selected_episodes p)
           \<and> (\<forall>i < length (selected_episodes p).
                (\<forall>r. ep_duration (selected_episodes p ! i) = Finite r \<longrightarrow>
                   xml_element (item_custom_elements (rss_items feed ! i)) ''itunes:duration''
                     = Some (N (Finite (of_int \<lfloor>r\<rfloor>)))
                   \<and> (0 \<le> r \<longrightarrow> \<lfloor>r\<rfloor> = spec_truncate r))
                \<and> (ep_duration (selected_episodes p ! i) = PosInfinity \<longrightarrow>
                     xml_element (item_custom_elements (rss_items feed ! i)) ''itunes:duration''
                       = Some (N PosInfinity))
                \<and> (ep_duration (selected_episodes p ! i) = NegInfinity \<longrightarrow>
                     xml_element (item_custom_elements (rss_items feed ! i)) ''itunes:duration''
                       = Some (N NegInfinity)))"
  using assms
  by (simp add: convertToRSS_feed_valid item_duration_element floor_is_truncation_if_nonneg)

theorem episode_duration_floor_witness:
  "root_podcast twelve_root = Some twelve_podcast
   \<and> ep_duration (selected_episodes twelve_podcast ! 0) = Finite (1259 / 10)
   \<and> (\<exists>feed. convertToRSS_feed ''now'' (Some twelve_root) None = Inr feed
          \<and> xml_element (item_custom_elements (rss_items feed ! 0)) ''itunes:duration''
              = Some (N (Finite 125)))
   \<and> spec_truncate (1259 / 10) = 125
   \<and> root_podcast (sample_root (Some nonfinite_podcast)) = Some nonfinite_podcast
   \<and> ep_duration (selected_episodes nonfinite_podcast ! 0) = PosInfinity
   \<and> ep_duration (selected_episodes nonfinite_podcast ! 1) = NegInfinity
   \<and> (\<exists>feed. convertToRSS_feed ''now'' (Some (sample_root (Some nonfinite_podcast))) None
                = Inr feed
          \<and> xml_element (item_custom_elements (rss_items feed ! 0)) ''itunes:duration''
              = Some (N PosInfinity)
          \<and> xml_element (item_custom_elements (rss_items feed ! 1)) ''itunes:duration''
              = Some (N NegInfinity))"
proof -
  note a = twelve_root_podcast
  have d: "ep_duration (selected_episodes twelve_podcast ! 0) = Finite (1259 / 10)"
    by (simp add: selected_twelve sample_episode_def)
  have fl: "\<lfloor>1259 / 10 :: rat\<rfloor> = 125"
    by (simp add: floor_eq_iff)
  have l: "0 < length (selected_episodes twelve_podcast)"
    by (simp add: selected_twelve)
  from episode_duration_floor [OF a, of "''now''" None]
  obtain feed where f: "convertToRSS_feed ''now'' (Some twelve_root) None = Inr feed"
    and dur: "\<forall>i < length (selected_episodes twelve_podcast).
                \<forall>r. ep_duration (selected_episodes twelve_podcast ! i) = Finite r \<longrightarrow>
                   xml_element (item_custom_elements (rss_items feed ! i)) ''itunes:duration''
                     = Some (N (Finite (of_int \<lfloor>r\<rfloor>)))
                   \<and> (0 \<le> r \<longrightarrow> \<lfloor>r\<rfloor> = spec_truncate r)"
    by blast
  from dur l d have
    e: "xml_element (item_custom_elements (rss_items feed ! 0)) ''itunes:duration'' =
          Some (N (Finite (of_int \<lfloor>1259 / 10 :: rat\<rfloor>)))"
    and t: "0 \<le> (1259 / 10 :: rat) \<longrightarrow> \<lfloor>1259 / 10 :: rat\<rfloor> = spec_truncate (1259 / 10)"
    by blast+
  have finite_part:
    "(\<exists>feed. convertToRSS_feed ''now'' (Some twelve_root) None = Inr feed
        \<and> xml_element (item_custom_elements (rss_items feed ! 0)) ''itunes:duration''
            = Some (N (Finite 125)))
     \<and> spec_truncate (1259 / 10) = 125"
    using f e t fl by auto
  have b: "root_podcast (sample_root (Some nonfinite_podcast)) = Some nonfinite_podcast"
    by (simp add: sample_root_def)
  have p0: "ep_duration (selected_episodes nonfinite_podcast ! 0) = PosInfinity"
    and p1: "ep_duration (selected_episodes nonfinite_podcast ! 1) = NegInfinity"
    by (simp_all add: selected_nonfinite sample_episode_def)
  have l0: "0 < length (selected_episodes nonfinite_podcast)"
    and l1: "1 < length (selected_episodes nonfinite_podcast)"
    by (simp_all add: selected_nonfinite)
  from episode_duration_floor [OF b, of "''now''" None]
  obtain feed' where
    f': "convertToRSS_feed ''now'' (Some (sample_root (Some nonfinite_podcast))) None
           = Inr feed'"
    and inf: "\<forall>i < length (selected_episodes nonfinite_podcast).
                (ep_duration (selected_episodes nonfinite_podcast ! i) = PosInfinity \<longrightarrow>
                   xml_element (item_custom_elements (rss_items feed' ! i)) ''itunes:duration''
                     = Some (N PosInfinity))
                \<and> (ep_duration (selected_episodes nonfinite_podcast ! i) = NegInfinity \<longrightarrow>
                     xml_element (item_custom_elements (rss_items feed' ! i)) ''itunes:duration''
                       = Some (N NegInfinity))"
    by blast
  from inf l0 p0 have
    i0: "xml_element (item_custom_elements (rss_items feed' ! 0)) ''itunes:duration''
           = Some (N PosInfinity)"
    by blast
  from inf l1 p1 have
    i1: "xml_element (item_custom_elements (rss_items feed' ! 1)) ''itunes:duration''
           = Some (N NegInfinity)"
    by blast
  have nonfinite_part:
    "\<exists>feed. convertToRSS_feed ''now'' (Some (sample_root (Some nonfinite_podcast))) None
               = Inr feed
        \<and> xml_element (item_custom_elements (rss_items feed ! 0)) ''itunes:duration''
            = Some (N PosInfinity)
        \<and> xml_element (item_custom_elements (rss_items feed ! 1)) ''itunes:duration''
            = Some (N NegInfinity)"
    using f' i0 i1 by blast
  show ?thesis
    using a d finite_part b p0 p1 nonfinite_part by simp
qed

lemma selected_negative_0:
  "selected_episodes negative_podcast ! 0 = sample_episode ''n0'' (Finite (- (3 / 2)))"
  by (simp add: selected_episodes_def negative_podcast_def sample_podcast_def slice_def)

text \<open>
  C7, as stated, fails: an episode lasting \<open>-1.5\<close> seconds gets \<open>itunes:duration\<close>
  \<open>-2\<close>, while truncation toward zero gives \<open>-1\<close>.
\<close>

theorem episode_duration_truncation_counterexample:
  "ep_duration (selected_episodes negative_podcast ! 0) = Finite (- (3 / 2))
   \<and> xml_element
        (item_custom_elements
           (emitted_items ''now'' (Some (sample_root (Some negative_podcast))) None ! 0))
        ''itunes:duration'' = Some (N (Finite (- 2)))
   \<and> spec_truncate (- (3 / 2)) = - 1"
proof -
  have fl: "\<lfloor>- (3 / 2) :: rat\<rfloor> = - 2"
    by (simp add: floor_eq_iff)
  have ce: "\<lceil>- (3 / 2) :: rat\<rceil> = - 1"
    by (simp add: ceiling_eq_iff)
  have r: "root_podcast (sample_root (Some negative_podcast)) = Some negative_podcast"
    by (simp add: sample_root_def)
  have s: "selected_episodes negative_podcast \<noteq> []"
    by (simp add: selected_episodes_def negative_podcast_def sample_podcast_def slice_def)
  have "emitted_items ''now'' (Some (sample_root (Some negative_podcast))) None ! 0
          = item_options negative_podcast None (selected_episodes negative_podcast ! 0)"
    using s by (simp add: emitted_items_valid [OF r] nth_map)
  then show ?thesis
    by (simp add: item_duration_element selected_negative_0 sample_episode_def
          fl ce spec_truncate_def)
qed

section \<open>Properties of the enrichment map\<close>













section \<open>Properties of the request handler\<close>

lemma handler_not_convert:
  "pathname (req_url req) \<noteq> ''/convert'' \<Longrightarrow>
     handler env req = (Response_new ''Not Found'' (Some 404) [], [])"
  by (simp add: handler_def)

lemma handler_try_primary:
  assumes d: "decodeURIComponent env u = Inr pu"
    and f: "fetch env pu = Fulfilled r"
    and ok: "res_ok r"
    and j: "res_json r = Inr body"
    and l: "case if_truthy lp of
              None \<Rightarrow> True
            | Some p \<Rightarrow> (case decodeURIComponent env p of Inl e \<Rightarrow> False | Inr u \<Rightarrow> True)"
  shows "handler_try env u lp =
           (convertToRSS env (as_Root body)
              (fst (case if_truthy lp of
                      None \<Rightarrow> (None, [])
                    | Some p \<Rightarrow>
                        (case decodeURIComponent env p of
                           Inl e \<Rightarrow> (None, [])
                         | Inr lu \<Rightarrow>
                             (case if_truthy (Some lu) of
                                None \<Rightarrow> (None, [])
                              | Some u \<Rightarrow> latest_fetch env u)))),
            snd (case if_truthy lp of
                   None \<Rightarrow> (None, [])
                 | Some p \<Rightarrow>
                     (case decodeURIComponent env p of
                        Inl e \<Rightarrow> (None, [])
                      | Inr lu \<Rightarrow>
                          (case if_truthy (Some lu) of
                             None \<Rightarrow> (None, [])
                           | Some u \<Rightarrow> latest_fetch env u))))"
proof (cases "if_truthy lp")
  case None
  then show ?thesis
    by (simp add: handler_try_def d f ok j)
next
  case (Some p)
  with l obtain lu where dl: "decodeURIComponent env p = Inr lu"
    by (auto split: sum.splits)
  show ?thesis
  proof (cases "lu = []")
    case True
    then show ?thesis
      by (simp add: handler_try_def d f ok j Some dl)
  next
    case False
    then show ?thesis
      by (simp add: handler_try_def d f ok j Some dl split: prod.splits)
  qed
qed

lemma handler_reaches_convert:
  assumes "primary_ok env req podcastData"
  shows "handler env req =
           (case convertToRSS env podcastData (fst (request_latest env req)) of
              Inr rssFeed \<Rightarrow>
                (Response_new rssFeed None
                   [(''Content-Type'', ''application/rss+xml; charset=utf-8'')],
                 snd (request_latest env req))
            | Inl e \<Rightarrow>
                (if instanceof_Error e
                 then Response_new (''Failed to convert podcast JSON: '' @ message e) (Some 500) []
                 else Response_new (''Failed to convert podcast JSON: '' @ String_of e) (Some 500) [],
                 snd (request_latest env req) @ [console_error ''Conversion error:'' e]))"
proof -
  from assms have path: "pathname (req_url req) = ''/convert''"
    and l: "case if_truthy (searchParams_get (req_url req) ''latestPodcastsUrl'') of
              None \<Rightarrow> True
            | Some p \<Rightarrow> (case decodeURIComponent env p of Inl e \<Rightarrow> False | Inr u \<Rightarrow> True)"
    and a: "case if_truthy (searchParams_get (req_url req) ''url'') of
              None \<Rightarrow> False
            | Some u \<Rightarrow>
                (case decodeURIComponent env u of
                   Inl e \<Rightarrow> False
                 | Inr podcastJsonUrl \<Rightarrow>
                     (case fetch env podcastJsonUrl of
                        Rejected e \<Rightarrow> False
                      | Fulfilled response \<Rightarrow>
                          res_ok response
                          \<and> (case res_json response of
                                Inl e \<Rightarrow> False
                              | Inr body \<Rightarrow> as_Root body = podcastData)))"
    by (simp_all add: primary_ok_def)
  from a obtain u where iu: "if_truthy (searchParams_get (req_url req) ''url'') = Some u"
    and b: "case decodeURIComponent env u of
              Inl e \<Rightarrow> False
            | Inr podcastJsonUrl \<Rightarrow>
                (case fetch env podcastJsonUrl of
                   Rejected e \<Rightarrow> False
                 | Fulfilled response \<Rightarrow>
                     res_ok response
                     \<and> (case res_json response of
                           Inl e \<Rightarrow> False
                         | Inr body \<Rightarrow> as_Root body = podcastData))"
    by (cases "if_truthy (searchParams_get (req_url req) ''url'')") auto
  from b obtain pu where d: "decodeURIComponent env u = Inr pu"
    and c: "case fetch env pu of
              Rejected e \<Rightarrow> False
            | Fulfilled response \<Rightarrow>
                res_ok response
                \<and> (case res_json response of
                      Inl e \<Rightarrow> False
                    | Inr body \<Rightarrow> as_Root body = podcastData)"
    by (cases "decodeURIComponent env u") auto
  from c obtain r where f: "fetch env pu = Fulfilled r" and ok: "res_ok r"
    and e: "case res_json r of Inl e \<Rightarrow> False | Inr body \<Rightarrow> as_Root body = podcastData"
    by (cases "fetch env pu") auto
  from e obtain body where j: "res_json r = Inr body" and ar: "as_Root body = podcastData"
    by (cases "res_json r") auto
  note t = handler_try_primary [OF d f ok j l, unfolded ar, folded request_latest_def]
  show ?thesis
    by (simp add: handler_def path iu t split: sum.splits)
qed

lemma handler_success_response:
  assumes "primary_ok env req podcastData"
    and "convertToRSS env podcastData (fst (request_latest env req)) = Inr rssFeed"
  shows "fst (handler env req) =
           \<lparr> resp_body = rssFeed, resp_status = 200,
             resp_headers = [(''Content-Type'', ''application/rss+xml; charset=utf-8'')] \<rparr>"
  using assms by (simp add: handler_reaches_convert Response_new_def)

lemma primary_ok_get_podcast: "primary_ok sample_env get_podcast (Some twelve_root)"
  by (simp add: primary_ok_def get_podcast_def sample_request_def searchParams_get_def
        sample_env_def sample_fetch_def)

lemma request_latest_get_podcast: "request_latest sample_env get_podcast = (None, [])"
  by (simp add: request_latest_def get_podcast_def sample_request_def searchParams_get_def)

lemma convertToRSS_twelve: "convertToRSS sample_env (Some twelve_root) None = Inr ''e2e3''"
  by (simp add: convertToRSS_def convertToRSS_feed_valid [OF twelve_root_podcast]
        selected_twelve sample_env_def item_options_def sample_episode_def)

subsection \<open>The successful response\<close>

text \<open>
  C2. The request \<open>GET /convert?url=http://x/podcast.json\<close> succeeds: the response has
  status 200 and the header \<open>Content-Type: application/rss+xml; charset=utf-8\<close>. That is
  its only header: there is no \<open>X-Podcast-Metadata\<close>.
\<close>

theorem success_response_has_no_metadata_header:
  "primary_ok sample_env get_podcast (Some twelve_root)
   \<and> fst (handler sample_env get_podcast) =
       \<lparr> resp_body = ''e2e3'', resp_status = 200,
         resp_headers = [(''Content-Type'', ''application/rss+xml; charset=utf-8'')] \<rparr>
   \<and> map_of (resp_headers (fst (handler sample_env get_podcast))) ''X-Podcast-Metadata'' = None"
proof -
  have "fst (handler sample_env get_podcast) =
          \<lparr> resp_body = ''e2e3'', resp_status = 200,
            resp_headers = [(''Content-Type'', ''application/rss+xml; charset=utf-8'')] \<rparr>"
    by (rule handler_success_response [OF primary_ok_get_podcast])
       (simp add: request_latest_get_podcast convertToRSS_twelve)
  then show ?thesis
    using primary_ok_get_podcast by simp
qed

subsection \<open>Routing\<close>

lemma handler_convert_status:
  assumes "pathname (req_url req) = ''/convert''"
  shows "resp_status (fst (handler env req)) \<in> {200, 400, 500}"
proof (cases "if_truthy (searchParams_get (req_url req) ''url'')")
  case None
  then show ?thesis
    using assms by (simp add: handler_def Response_new_def)
next
  case (Some u)
  obtain res out where
    t: "handler_try env u (searchParams_get (req_url req) ''latestPodcastsUrl'') = (res, out)"
    by (cases "handler_try env u (searchParams_get (req_url req) ''latestPodcastsUrl'')")
  show ?thesis
    using assms Some t by (cases res) (simp_all add: handler_def Response_new_def)
qed

lemma handler_ignores_method: "handler env (req\<lparr>req_method := meth\<rparr>) = handler env req"
  by (simp add: handler_def)

text \<open>
  C4, as amended. A request gets a 404 response exactly when its path is not \<open>/convert\<close>.
  The method is not examined: a request is answered as the same request with any other
  method.
\<close>

theorem not_found_iff_other_path:
  "(resp_status (fst (handler env req)) = 404 \<longleftrightarrow> pathname (req_url req) \<noteq> ''/convert'')
   \<and> handler env (req\<lparr>req_method := meth\<rparr>) = handler env req"
proof -
  have "resp_status (fst (handler env req)) = 404" if "pathname (req_url req) \<noteq> ''/convert''"
    using that by (simp add: handler_not_convert Response_new_def)
  moreover have "resp_status (fst (handler env req)) \<noteq> 404"
    if "pathname (req_url req) = ''/convert''"
    using handler_convert_status [OF that, of env] by auto
  ultimately show ?thesis
    using handler_ignores_method by blast
qed

theorem not_found_iff_other_path_witness:
  "pathname (req_url get_other) \<noteq> ''/convert''
   \<and> resp_status (fst (handler sample_env get_other)) = 404
   \<and> handler sample_env (get_other\<lparr>req_method := ''DELETE''\<rparr>) = handler sample_env get_other"
proof -
  have "pathname (req_url get_other) \<noteq> ''/convert''"
    by (simp add: get_other_def sample_request_def)
  then show ?thesis
    using not_found_iff_other_path [of sample_env get_other "''DELETE''"] by simp
qed

text \<open>
  C4, as stated, fails: \<open>POST /convert?url=http://x/podcast.json\<close> is answered with
  status 200 and the feed, not with 404.
\<close>

theorem post_convert_counterexample:
  "req_method post_podcast = ''POST''
   \<and> pathname (req_url post_podcast) = ''/convert''
   \<and> fst (handler sample_env post_podcast) =
       \<lparr> resp_body = ''e2e3'', resp_status = 200,
         resp_headers = [(''Content-Type'', ''application/rss+xml; charset=utf-8'')] \<rparr>"
proof -
  have p: "post_podcast = get_podcast\<lparr>req_method := ''POST''\<rparr>"
    by (simp add: post_podcast_def get_podcast_def sample_request_def)
  have "handler sample_env post_podcast = handler sample_env get_podcast"
    unfolding p by (rule handler_ignores_method)
  moreover have "fst (handler sample_env get_podcast) =
          \<lparr> resp_body = ''e2e3'', resp_status = 200,
            resp_headers = [(''Content-Type'', ''application/rss+xml; charset=utf-8'')] \<rparr>"
    by (rule handler_success_response [OF primary_ok_get_podcast])
       (simp add: request_latest_get_podcast convertToRSS_twelve)
  ultimately show ?thesis
    by (simp add: post_podcast_def sample_request_def)
qed

subsection \<open>Invalid documents\<close>

text \<open>
  C3. When the document is absent, or has no podcast, \<open>convertToRSS\<close> throws an
  \<open>Error\<close> with the message \<open>Invalid podcast JSON structure\<close>, whatever the document's
  other fields and whatever the enrichment map. (The source throws a plain \<open>Error\<close>; it
  declares no error classes of its own.) A request that reaches the conversion with such a
  document is answered with status 500 and that message in the body.
\<close>

theorem invalid_structure_error:
  assumes "podcastData = None \<or> (\<exists>doc. podcastData = Some doc \<and> root_podcast doc = None)"
  shows "convertToRSS env podcastData m = Inl (Error ''Invalid podcast JSON structure'')
         \<and> (primary_ok env req podcastData \<longrightarrow>
              fst (handler env req) =
                \<lparr> resp_body = ''Failed to convert podcast JSON: Invalid podcast JSON structure'',
                  resp_status = 500, resp_headers = [] \<rparr>)"
proof -
  have c: "convertToRSS env podcastData m' = Inl (Error ''Invalid podcast JSON structure'')"
    for m'
    using assms by (auto simp: convertToRSS_def convertToRSS_feed_def)
  have "fst (handler env req) =
          \<lparr> resp_body = ''Failed to convert podcast JSON: Invalid podcast JSON structure'',
            resp_status = 500, resp_headers = [] \<rparr>"
    if "primary_ok env req podcastData"
    by (simp add: handler_reaches_convert [OF that] c Response_new_def)
  with c show ?thesis
    by blast
qed

lemma primary_ok_get_null: "primary_ok sample_env get_null None"
  by (simp add: primary_ok_def get_null_def sample_request_def searchParams_get_def
        sample_env_def sample_fetch_def)

lemma primary_ok_get_bare: "primary_ok sample_env get_bare (Some (sample_root None))"
  by (simp add: primary_ok_def get_bare_def sample_request_def searchParams_get_def
        sample_env_def sample_fetch_def)

theorem invalid_structure_error_witness:
  "root_podcast (sample_root None) = None
   \<and> primary_ok sample_env get_bare (Some (sample_root None))
   \<and> convertToRSS sample_env (Some (sample_root None)) (Some e2_map)
       = Inl (Error ''Invalid podcast JSON structure'')
   \<and> fst (handler sample_env get_bare) =
       \<lparr> resp_body = ''Failed to convert podcast JSON: Invalid podcast JSON structure'',
         resp_status = 500, resp_headers = [] \<rparr>
   \<and> primary_ok sample_env get_null None
   \<and> convertToRSS sample_env None (Some e2_map) = Inl (Error ''Invalid podcast JSON structure'')
   \<and> fst (handler sample_env get_null) =
       \<lparr> resp_body = ''Failed to convert podcast JSON: Invalid podcast JSON structure'',
         resp_status = 500, resp_headers = [] \<rparr>"
proof -
  have r: "root_podcast (sample_root None) = None"
    by (simp add: sample_root_def)
  then have h: "Some (sample_root None) = None
                \<or> (\<exists>doc. Some (sample_root None) = Some doc \<and> root_podcast doc = None)"
    by simp
  have n: "(None :: Root option) = None \<or> (\<exists>doc. None = Some doc \<and> root_podcast doc = None)"
    by simp
  show ?thesis
    using invalid_structure_error [OF h, of sample_env "Some e2_map" get_bare]
      invalid_structure_error [OF n, of sample_env "Some e2_map" get_null]
      r primary_ok_get_bare primary_ok_get_null
    by simp
qed

subsection \<open>The optional second fetch\<close>

text \<open>Each way the second fetch can fail is a failure of \<open>latest_outcome\<close>.\<close>

lemma latest_outcome_failures:
  "fetch env u = Rejected e \<Longrightarrow> latest_outcome env u = Inl NetworkError"
  "fetch env u = Fulfilled r \<Longrightarrow> \<not> res_ok r \<Longrightarrow> latest_outcome env u = Inl NonSuccessStatus"
  "fetch env u = Fulfilled r \<Longrightarrow> res_ok r \<Longrightarrow> res_json r = Inl e \<Longrightarrow>
     latest_outcome env u = Inl MalformedJSON"
  "fetch env u = Fulfilled r \<Longrightarrow> res_ok r \<Longrightarrow> res_json r = Inr body \<Longrightarrow>
     Option.bind (Option.bind (as_LatestPodcastsRoot body) lpr_podcast) lpd_episodes = None \<Longrightarrow>
     latest_outcome env u = Inl MissingEpisodes"
  by (auto simp: latest_outcome_def split: option.splits)

lemma latest_fetch_failure:
  assumes "latest_outcome env u = Inl failure"
  shows "\<exists>w. latest_fetch env u = (None, [console_warn w])"
proof (cases "fetch env u")
  case (Rejected e)
  then show ?thesis
    by (simp add: latest_fetch_def latest_try_def)
next
  case (Fulfilled r)
  show ?thesis
  proof (cases "res_ok r")
    case False
    with Fulfilled show ?thesis
      by (simp add: latest_fetch_def latest_try_def)
  next
    case True
    show ?thesis
    proof (cases "res_json r")
      case (Inl e)
      with Fulfilled True show ?thesis
        by (simp add: latest_fetch_def latest_try_def)
    next
      case (Inr body)
      with Fulfilled True assms
      have "Option.bind (Option.bind (as_LatestPodcastsRoot body) lpr_podcast) lpd_episodes
              = None"
        by (auto simp: latest_outcome_def split: option.splits)
      with Fulfilled True Inr show ?thesis
        by (simp add: latest_fetch_def latest_try_def)
    qed
  qed
qed

lemma map_of_filter_other_key:
  "k \<noteq> k' \<Longrightarrow> map_of (filter (\<lambda>kv. fst kv \<noteq> k') xs) k = map_of xs k"
  by (induction xs) auto

lemma map_of_filter_same_key: "map_of (filter (\<lambda>kv. fst kv \<noteq> k') xs) k' = None"
  by (induction xs) auto

lemma without_latest_url:
  "searchParams_get (req_url (without_latest req)) ''url'' =
     searchParams_get (req_url req) ''url''"
  by (simp add: without_latest_def searchParams_get_def map_of_filter_other_key)

lemma without_latest_latest:
  "searchParams_get (req_url (without_latest req)) ''latestPodcastsUrl'' = None"
  by (simp add: without_latest_def searchParams_get_def map_of_filter_same_key)

lemma without_latest_pathname:
  "pathname (req_url (without_latest req)) = pathname (req_url req)"
  by (simp add: without_latest_def)

lemma primary_ok_without_latest:
  "primary_ok env req d \<Longrightarrow> primary_ok env (without_latest req) d"
  by (simp add: primary_ok_def without_latest_url without_latest_latest
        without_latest_pathname)

lemma request_latest_without_latest: "request_latest env (without_latest req) = (None, [])"
  by (simp add: request_latest_def without_latest_latest)

text \<open>
  C5. Take a request that reaches the conversion with a document that has a podcast, and
  whose \<open>latestPodcastsUrl\<close> is fetched and fails in any of the four ways (network error,
  non-success status, malformed JSON, no \<open>podcast.episodes\<close>). Then the console gets one
  warning and nothing else, the response is the 200 response carrying the feed converted
  without an enrichment map, the same response as for the request without the parameter,
  and every item of that feed has the podcast-level image (or the empty string) as its
  \<open>itunes:image\<close> \<open>href\<close> and \<open>media:content\<close> \<open>url\<close>.
\<close>

theorem latest_failure_is_swallowed:
  assumes "primary_ok env req (Some doc)"
    and "root_podcast doc = Some p"
    and "if_truthy (searchParams_get (req_url req) ''latestPodcastsUrl'') = Some lp"
    and "decodeURIComponent env lp = Inr lu"
    and "lu \<noteq> []"
    and "latest_outcome env lu = Inl failure"
  shows "\<exists>w feed.
           convertToRSS_feed (now_toUTCString env) (Some doc) None = Inr feed
           \<and> handler env req =
               (\<lparr> resp_body = xml env feed, resp_status = 200,
                  resp_headers = [(''Content-Type'', ''application/rss+xml; charset=utf-8'')] \<rparr>,
                [console_warn w])
           \<and> fst (handler env req) = fst (handler env (without_latest req))
           \<and> (\<forall>item \<in> set (rss_items feed).
                element_attr (item_custom_elements item) ''itunes:image'' ''href''
                  = Some (S (podcast_image p))
                \<and> element_attr (item_custom_elements item) ''media:content'' ''url''
                  = Some (S (podcast_image p)))"
proof -
  from latest_fetch_failure [OF assms(6)]
  obtain w where w: "latest_fetch env lu = (None, [console_warn w])"
    by blast
  have rl: "request_latest env req = (None, [console_warn w])"
    using assms(3,4,5) w by (simp add: request_latest_def)
  let ?feed = "\<lparr>rss_options = feed_options (now_toUTCString env) p,
                 rss_items = map (item_options p None) (selected_episodes p)\<rparr>"
  have f: "convertToRSS_feed (now_toUTCString env) (Some doc) None = Inr ?feed"
    by (rule convertToRSS_feed_valid [OF assms(2)])
  then have c: "convertToRSS env (Some doc) None = Inr (xml env ?feed)"
    by (simp add: convertToRSS_def)
  have h: "handler env req =
             (\<lparr> resp_body = xml env ?feed, resp_status = 200,
                resp_headers = [(''Content-Type'', ''application/rss+xml; charset=utf-8'')] \<rparr>,
              [console_warn w])"
    by (simp add: handler_reaches_convert [OF assms(1)] rl c Response_new_def)
  have h': "fst (handler env (without_latest req)) = fst (handler env req)"
    by (simp add: handler_reaches_convert [OF primary_ok_without_latest [OF assms(1)]]
          request_latest_without_latest c h Response_new_def)
  have i: "\<forall>item \<in> set (rss_items ?feed).
             element_attr (item_custom_elements item) ''itunes:image'' ''href''
               = Some (S (podcast_image p))
             \<and> element_attr (item_custom_elements item) ''media:content'' ''url''
               = Some (S (podcast_image p))"
    by (auto simp: item_image_elements episode_image_by_value image_by_value_def
          enrichment_entry_def)
  from f h h' i show ?thesis
    by metis
qed

lemma primary_ok_failing_latest:
  "primary_ok sample_env get_podcast_failing_latest (Some twelve_root)"
  by (simp add: primary_ok_def get_podcast_failing_latest_def sample_request_def
        searchParams_get_def sample_env_def sample_fetch_def)

theorem latest_failure_is_swallowed_witness:
  "primary_ok sample_env get_podcast_failing_latest (Some twelve_root)
   \<and> root_podcast twelve_root = Some twelve_podcast
   \<and> if_truthy (searchParams_get (req_url get_podcast_failing_latest) ''latestPodcastsUrl'')
       = Some ''http://x/gone.json''
   \<and> decodeURIComponent sample_env ''http://x/gone.json'' = Inr ''http://x/gone.json''
   \<and> latest_outcome sample_env ''http://x/gone.json'' = Inl NonSuccessStatus
   \<and> (\<exists>w. handler sample_env get_podcast_failing_latest =
              (\<lparr> resp_body = ''e2e3'', resp_status = 200,
                 resp_headers = [(''Content-Type'', ''application/rss+xml; charset=utf-8'')] \<rparr>,
               [console_warn w]))
   \<and> fst (handler sample_env get_podcast_failing_latest) =
       fst (handler sample_env (without_latest get_podcast_failing_latest))"
proof -
  note a = primary_ok_failing_latest
  note b = twelve_root_podcast
  have c: "if_truthy (searchParams_get (req_url get_podcast_failing_latest)
             ''latestPodcastsUrl'') = Some ''http://x/gone.json''"
    by (simp add: get_podcast_failing_latest_def sample_request_def searchParams_get_def)
  have d: "decodeURIComponent sample_env ''http://x/gone.json'' = Inr ''http://x/gone.json''"
    by (simp add: sample_env_def)
  have e: "''http://x/gone.json'' \<noteq> []"
    by simp
  have f: "latest_outcome sample_env ''http://x/gone.json'' = Inl NonSuccessStatus"
    by (simp add: latest_outcome_def sample_env_def sample_fetch_def)
  have x: "xml sample_env feed = ''e2e3''"
    if "convertToRSS_feed (now_toUTCString sample_env) (Some twelve_root) None = Inr feed"
    for feed
    using that convertToRSS_twelve by (simp add: convertToRSS_def)
  from latest_failure_is_swallowed [OF a b c d e f] x
  have "(\<exists>w. handler sample_env get_podcast_failing_latest =
              (\<lparr> resp_body = ''e2e3'', resp_status = 200,
                 resp_headers = [(''Content-Type'', ''application/rss+xml; charset=utf-8'')] \<rparr>,
               [console_warn w]))
        \<and> fst (handler sample_env get_podcast_failing_latest) =
            fst (handler sample_env (without_latest get_podcast_failing_latest))"
    by metis
  then show ?thesis
    using a b c d f by simp
qed

end
